theory Spec2Isabelle
  imports Main
begin

section \<open>The bulk CSV loader (import_csv_to_sql.py)\<close>

subsection \<open>Data model\<close>

text \<open>
  A source file is the sequence of records that \<open>csv.reader\<close> yields for it: every record
  is a list of text fields, the first record is the header, and a blank line is the empty
  record \<open>[]\<close>. A file with no line at all is \<open>[]\<close>.
\<close>

type_synonym path = string
type_synonym csv_file = "string list list"

text \<open>The Python exception classes that can reach the code under study.\<close>

datatype error =
    FileNotFoundError
  | StopIteration
  | IndexError
  | KeyError
  | UnboundLocalError
  | DataError
  | ResourceClosedError
  | OtherError string

text \<open>A Python value returned by a function: \<open>None\<close> or an integer.\<close>

datatype pyval = PyNone | PyInt int

text \<open>
  The five SQL statements the loader sends. \<open>CreateTable\<close> carries the column
  declarations as (name, type) pairs, in order.
\<close>

datatype stmt =
    DropTableIfExists string string
  | CreateTable string string "(string \<times> string) list"
  | CopyFrom string string path
  | Commit
  | SelectCount string string

record table =
  columns :: "(string \<times> string) list"
  rows :: "string list list"

text \<open>The world outside the process: the file system and the database's tables,
  keyed by (schema, name).\<close>

record world =
  files :: "path \<rightharpoonup> csv_file"
  tables :: "string \<times> string \<rightharpoonup> table"

text \<open>Every interaction of the process with the outside, in the order it happens.\<close>

datatype event =
    Execute stmt
  | OpenRead path
  | ReadCsv path
  | ToCsv path
  | Print string
  | Connect
  | ConnClose
  | EngineDispose

text \<open>
  The state threaded through the program: the world, whether the local variable \<open>conn\<close>
  of \<open>main\<close> is bound, whether the connection is closed, whether the engine is disposed,
  and the trace of events so far.
\<close>

record state =
  world :: world
  conn_bound :: bool
  closed :: bool
  disposed :: bool
  trace :: "event list"

text \<open>
  The libraries the loader calls are parameters of the model: what the database answers
  to a statement (an error, or result rows and the new world), what
  \<open>pd.read_csv(..., dtype=str, engine='python')\<close> makes of a file (an error, or the
  records that \<open>to_csv(..., index=False)\<close> then writes), and whether
  \<open>engine.connect()\<close> fails.
\<close>

record env =
  db_execute :: "stmt \<Rightarrow> world \<Rightarrow> error + (int list list \<times> world)"
  read_csv :: "csv_file \<Rightarrow> error + csv_file"
  engine_connect :: "world \<Rightarrow> error option"

subsection \<open>Statements that may raise\<close>

type_synonym 'a prog = "state \<Rightarrow> (error + 'a) \<times> state"

definition return :: "'a \<Rightarrow> 'a prog" where
  "return a s = (Inr a, s)"

definition andthen :: "'a prog \<Rightarrow> ('a \<Rightarrow> 'b prog) \<Rightarrow> 'b prog" where
  "andthen m f s = (case m s of (Inl e, s') \<Rightarrow> (Inl e, s') | (Inr a, s') \<Rightarrow> f a s')"

text \<open>\<open>try: body except DataError: handler\<close>\<close>

definition try_except_DataError :: "'a prog \<Rightarrow> 'a prog \<Rightarrow> 'a prog" where
  "try_except_DataError body handler s =
     (case body s of
        (Inl e, s') \<Rightarrow> if e = DataError then handler s' else (Inl e, s')
      | (Inr a, s') \<Rightarrow> (Inr a, s'))"

text \<open>
  \<open>try: body except FileNotFoundError: handler finally: final\<close>. The \<open>finally\<close> block
  runs on every path; an exception it raises replaces whatever was pending.
\<close>

definition try_except_FileNotFoundError_finally ::
    "unit prog \<Rightarrow> unit prog \<Rightarrow> unit prog \<Rightarrow> unit prog" where
  "try_except_FileNotFoundError_finally body handler final s =
     (case (case body s of
              (Inl e, s1) \<Rightarrow> if e = FileNotFoundError then handler s1 else (Inl e, s1)
            | (Inr a, s1) \<Rightarrow> (Inr a, s1)) of
        (r, s2) \<Rightarrow>
          (case final s2 of
             (Inl e, s3) \<Rightarrow> (Inl e, s3)
           | (Inr a, s3) \<Rightarrow> (r, s3)))"

definition emit :: "event \<Rightarrow> state \<Rightarrow> state" where
  "emit ev s = s\<lparr>trace := trace s @ [ev]\<rparr>"

definition print :: "string \<Rightarrow> unit prog" where
  "print msg s = (Inr (), emit (Print msg) s)"

text \<open>
  \<open>conn.execute(q)\<close>: a closed connection raises without sending anything; otherwise
  the statement is sent and the database's answer decides.
\<close>

definition conn_execute :: "env \<Rightarrow> stmt \<Rightarrow> int list list prog" where
  "conn_execute E q s =
     (if closed s then (Inl ResourceClosedError, s)
      else
        (case db_execute E q (world s) of
           Inl e \<Rightarrow> (Inl e, emit (Execute q) s)
         | Inr (res, w) \<Rightarrow> (Inr res, (emit (Execute q) s)\<lparr>world := w\<rparr>)))"

definition conn_close :: "unit prog" where
  "conn_close s = (Inr (), (emit ConnClose s)\<lparr>closed := True\<rparr>)"

definition engine_dispose :: "unit prog" where
  "engine_dispose s = (Inr (), (emit EngineDispose s)\<lparr>disposed := True\<rparr>)"

text \<open>\<open>with open(file_name, 'r') as f: header = next(csv.reader(f))\<close>\<close>

definition read_header :: "path \<Rightarrow> string list prog" where
  "read_header file_name s =
     (case files (world s) file_name of
        None \<Rightarrow> (Inl FileNotFoundError, emit (OpenRead file_name) s)
      | Some f \<Rightarrow>
          (case f of
             [] \<Rightarrow> (Inl StopIteration, emit (OpenRead file_name) s)
           | header # rest \<Rightarrow> (Inr header, emit (OpenRead file_name) s)))"

text \<open>\<open>pd.read_csv(file_name, dtype=str, engine='python').to_csv(new_filename, index=False)\<close>\<close>

definition rewrite_as_text :: "env \<Rightarrow> path \<Rightarrow> path \<Rightarrow> unit prog" where
  "rewrite_as_text E file_name new_filename s =
     (case files (world s) file_name of
        None \<Rightarrow> (Inl FileNotFoundError, emit (ReadCsv file_name) s)
      | Some f \<Rightarrow>
          (case read_csv E f of
             Inl e \<Rightarrow> (Inl e, emit (ReadCsv file_name) s)
           | Inr g \<Rightarrow>
               (Inr (), (emit (ToCsv new_filename) (emit (ReadCsv file_name) s))
                  \<lparr>world := (world s)\<lparr>files := (files (world s))(new_filename \<mapsto> g)\<rparr>\<rparr>)))"

text \<open>\<open>list(result)[0][0]\<close>\<close>

definition first_scalar :: "int list list \<Rightarrow> int prog" where
  "first_scalar res s =
     (case res of
        [] \<Rightarrow> (Inl IndexError, s)
      | r # rest \<Rightarrow> (case r of [] \<Rightarrow> (Inl IndexError, s) | v # vs \<Rightarrow> (Inr v, s)))"

text \<open>\<open>str(n)\<close> for an integer.\<close>

definition digit :: "nat \<Rightarrow> char" where
  "digit d = ''0123456789'' ! d"

function str_nat :: "nat \<Rightarrow> string" where
  "str_nat n = (if n < 10 then [digit n] else str_nat (n div 10) @ [digit (n mod 10)])"
  by pat_completeness auto
termination
  by (relation "measure id") auto

declare str_nat.simps [simp del]

definition str_int :: "int \<Rightarrow> string" where
  "str_int i = (if i < 0 then CHR ''-'' # str_nat (nat (- i)) else str_nat (nat i))"

subsection \<open>csv_to_table\<close>

text \<open>The COPY of a file into the table, followed by its commit (lines 72-78 and 84-90).\<close>

definition copy_commit :: "env \<Rightarrow> string \<Rightarrow> string \<Rightarrow> path \<Rightarrow> int list list prog" where
  "copy_commit E schema tablename file_name =
     andthen (conn_execute E (CopyFrom schema tablename file_name))
       (\<lambda>_. conn_execute E Commit)"

text \<open>The handler of \<open>except exc.DataError\<close> (lines 80-90).\<close>

definition fallback :: "env \<Rightarrow> string \<Rightarrow> string \<Rightarrow> path \<Rightarrow> int list list prog" where
  "fallback E schema tablename file_name =
     andthen (rewrite_as_text E file_name (file_name @ ''_tmp''))
       (\<lambda>_. copy_commit E schema tablename (file_name @ ''_tmp''))"

text \<open>The message \<open>f"\t{num_rows} rows loaded."\<close>\<close>

definition rows_loaded :: "int \<Rightarrow> string" where
  "rows_loaded num_rows = CHR 0x09 # str_int num_rows @ '' rows loaded.''"

text \<open>
  \<open>csv_to_table(tablename, schema, file_name, conn)\<close>; the connection is the one of the
  state. The parameter \<open>recursed\<close> of the source is never read and is left out. The
  function has no \<open>return\<close> statement, so it returns \<open>None\<close>.
\<close>

definition csv_to_table :: "env \<Rightarrow> string \<Rightarrow> string \<Rightarrow> path \<Rightarrow> pyval prog" where
  "csv_to_table E tablename schema file_name =
     andthen (conn_execute E (DropTableIfExists schema tablename)) (\<lambda>_.
     andthen (read_header file_name) (\<lambda>header.
     andthen (conn_execute E
                (CreateTable schema tablename (map (\<lambda>col. (col, ''text'')) header))) (\<lambda>_.
     andthen (try_except_DataError
                (copy_commit E schema tablename file_name)
                (fallback E schema tablename file_name)) (\<lambda>_.
     andthen (conn_execute E (SelectCount schema tablename)) (\<lambda>res.
     andthen (first_scalar res) (\<lambda>num_rows.
     andthen (print (rows_loaded num_rows)) (\<lambda>_.
     andthen conn_close (\<lambda>_.
     return PyNone))))))))"

subsection \<open>main\<close>

definition loading_message :: "path \<Rightarrow> string \<Rightarrow> string \<Rightarrow> string \<Rightarrow> string" where
  "loading_message file_name database schema tablename =
     CHR 0x0A # ''Loading '' @ file_name @ '' into '' @ database @ ''.'' @ schema
       @ ''.'' @ tablename"

definition path_hint :: string where
  "path_hint = ''*******'' @ [CHR 0x0A]
     @ ''You may want to try giving the full filepath to the file, instead of the relative path.''
     @ [CHR 0x0A] @ ''*******''"

definition done_message :: string where
  "done_message = CHR 0x0A # ''Done!''"

text \<open>\<open>conn = engine.connect()\<close>: on success the local \<open>conn\<close> is bound to a new, open
  connection; on failure it stays unbound.\<close>

definition connect :: "env \<Rightarrow> unit prog" where
  "connect E s =
     (case engine_connect E (world s) of
        Some e \<Rightarrow> (Inl e, emit Connect s)
      | None \<Rightarrow> (Inr (), (emit Connect s)\<lparr>conn_bound := True, closed := False\<rparr>))"

text \<open>\<open>conn.close()\<close> in \<open>main\<close>, where \<open>conn\<close> is a local that may be unbound.\<close>

definition close_local_conn :: "unit prog" where
  "close_local_conn s = (if conn_bound s then conn_close s else (Inl UnboundLocalError, s))"

text \<open>
  \<open>main()\<close>, with the answers of \<open>get_args()\<close> as parameters. \<open>create_engine\<close> makes a
  new engine and opens nothing; on entry the local \<open>conn\<close> is unbound.
\<close>

definition main :: "env \<Rightarrow> path \<Rightarrow> string \<Rightarrow> string \<Rightarrow> string \<Rightarrow> pyval prog" where
  "main E file_name tablename database schema s =
     (andthen (print (loading_message file_name database schema tablename)) (\<lambda>_.
      andthen (try_except_FileNotFoundError_finally
                 (andthen (connect E) (\<lambda>_.
                  andthen (csv_to_table E tablename schema file_name) (\<lambda>_.
                  return ())))
                 (print path_hint)
                 (andthen close_local_conn (\<lambda>_. engine_dispose))) (\<lambda>_.
      andthen (print done_message) (\<lambda>_.
      return PyNone))))
       (s\<lparr>conn_bound := False, disposed := False\<rparr>)"

subsection \<open>A reference environment\<close>

text \<open>
  The claims about the table after a load need a database to speak of. This is the model
  of the PostgreSQL server used for them, with its assumptions in the open:
  \<^item> every statement takes effect at once (SQLAlchemy commits DROP and CREATE by itself,
    and rolls a failed statement back), so \<open>commit\<close> changes nothing and never fails;
  \<^item> identifiers are stored as written (the spec assumes them safe and unique); a
    repeated column name and an existing table are rejected by CREATE;
  \<^item> \<open>COPY ... CSV HEADER\<close> skips the first record and loads the others whole or not at
    all; a record whose number of fields is not the number of columns is a data error
    (class 22, \<open>exc.DataError\<close>); a blank line counts as one empty field unless the table
    has no column;
  \<^item> the server reads the same files as the process; encodings are not modelled.
\<close>

definition pg_fields :: "nat \<Rightarrow> string list \<Rightarrow> string list" where
  "pg_fields k r = (if r = [] \<and> 0 < k then [[]] else r)"

definition pg_execute :: "stmt \<Rightarrow> world \<Rightarrow> error + (int list list \<times> world)" where
  "pg_execute q w =
     (case q of
        DropTableIfExists sc t \<Rightarrow> Inr ([], w\<lparr>tables := (tables w)((sc, t) := None)\<rparr>)
      | CreateTable sc t cols \<Rightarrow>
          (if tables w (sc, t) \<noteq> None then Inl (OtherError ''DuplicateTable'')
           else if distinct (map fst cols)
             then Inr ([], w\<lparr>tables := (tables w)((sc, t) \<mapsto> \<lparr>columns = cols, rows = []\<rparr>)\<rparr>)
             else Inl (OtherError ''DuplicateColumn''))
      | CopyFrom sc t p \<Rightarrow>
          (case tables w (sc, t) of
             None \<Rightarrow> Inl (OtherError ''UndefinedTable'')
           | Some tb \<Rightarrow>
               (case files w p of
                  None \<Rightarrow> Inl (OtherError ''UndefinedFile'')
                | Some f \<Rightarrow>
                    (if list_all (\<lambda>r. length r = length (columns tb))
                          (map (pg_fields (length (columns tb))) (drop 1 f))
                     then Inr ([], w\<lparr>tables := (tables w)((sc, t) \<mapsto>
                            tb\<lparr>rows := rows tb
                               @ map (pg_fields (length (columns tb))) (drop 1 f)\<rparr>)\<rparr>)
                     else Inl DataError)))
      | Commit \<Rightarrow> Inr ([], w)
      | SelectCount sc t \<Rightarrow>
          (case tables w (sc, t) of
             None \<Rightarrow> Inl (OtherError ''UndefinedTable'')
           | Some tb \<Rightarrow> Inr ([[int (length (rows tb))]], w)))"

text \<open>
  The part of pandas' \<open>read_csv\<close> (python engine, \<open>dtype=str\<close>) followed by \<open>to_csv\<close>
  that changes the shape of a file: blank lines are skipped, the first record left is the
  header, a record shorter than the header is padded with empty fields, and a longer one
  is a parser error. Its rewriting of individual values is not modelled.
\<close>

definition pandas_read_csv :: "csv_file \<Rightarrow> error + csv_file" where
  "pandas_read_csv f =
     (case filter (\<lambda>r. r \<noteq> []) f of
        [] \<Rightarrow> Inl (OtherError ''EmptyDataError'')
      | header # recs \<Rightarrow>
          (if list_ex (\<lambda>r. length header < length r) recs
           then Inl (OtherError ''ParserError'')
           else Inr (header # map (\<lambda>r. r @ replicate (length header - length r) []) recs)))"

definition pg_env :: "(csv_file \<Rightarrow> error + csv_file) \<Rightarrow> env" where
  "pg_env rc = \<lparr>db_execute = pg_execute, read_csv = rc, engine_connect = (\<lambda>w. None)\<rparr>"

text \<open>The table a successful load of the file \<open>header # recs\<close> is expected to leave.\<close>

definition table_of_file ::
    "(csv_file \<Rightarrow> error + csv_file) \<Rightarrow> string list \<Rightarrow> string list list \<Rightarrow> table" where
  "table_of_file rc header recs =
     (if list_all (\<lambda>r. length r = length header) (map (pg_fields (length header)) recs)
      then \<lparr>columns = map (\<lambda>col. (col, ''text'')) header,
            rows = map (pg_fields (length header)) recs\<rparr>
      else
        (case rc (header # recs) of
           Inl e \<Rightarrow> \<lparr>columns = map (\<lambda>col. (col, ''text'')) header, rows = []\<rparr>
         | Inr g \<Rightarrow> \<lparr>columns = map (\<lambda>col. (col, ''text'')) header,
                     rows = map (pg_fields (length header)) (drop 1 g)\<rparr>))"

text \<open>An example state: the given files and tables, an open connection, no event yet.\<close>

definition example_state ::
    "(path \<rightharpoonup> csv_file) \<Rightarrow> (string \<times> string \<rightharpoonup> table) \<Rightarrow> state" where
  "example_state fs ts =
     \<lparr>world = \<lparr>files = fs, tables = ts\<rparr>,
      conn_bound = True, closed = False, disposed = False, trace = []\<rparr>"

subsection \<open>Example inputs\<close>

definition sales_csv :: csv_file where
  "sales_csv = [[''date'', ''region'', ''amount''],
                [''2020-01-01'', ''north'', ''10''],
                [''2020-01-02'', ''south'', ''20''],
                [''2020-01-03'', ''east'', ''30'']]"

definition sales_state :: state where
  "sales_state = example_state [''/data/sales.csv'' \<mapsto> sales_csv] Map.empty"

text \<open>No file, and a table left by an earlier load.\<close>

definition old_sales_state :: state where
  "old_sales_state = example_state Map.empty
     [(''public'', ''sales'') \<mapsto> \<lparr>columns = [(''date'', ''text'')], rows = [[''2019-12-31'']]\<rparr>]"

text \<open>The reference environment, but the server refuses the connection.\<close>

definition refusing_env :: env where
  "refusing_env = \<lparr>db_execute = pg_execute, read_csv = pandas_read_csv,
                    engine_connect = (\<lambda>w. Some (OtherError ''OperationalError''))\<rparr>"

text \<open>A file whose only line is blank.\<close>

definition blank_header_state :: state where
  "blank_header_state = example_state [''/data/blank.csv'' \<mapsto> [[]]] Map.empty"

text \<open>A file whose data record is shorter than the header.\<close>

definition short_state :: state where
  "short_state = example_state [''/data/short.csv'' \<mapsto> [[''a'', ''b''], [''1'']]] Map.empty"

text \<open>The reference environment, but the server may not read files: every COPY is refused.\<close>

definition denied_env :: env where
  "denied_env =
     \<lparr>db_execute = (\<lambda>q w. case q of
          CopyFrom sc t p \<Rightarrow> Inl (OtherError ''InsufficientPrivilege'')
        | DropTableIfExists sc t \<Rightarrow> pg_execute q w
        | CreateTable sc t cols \<Rightarrow> pg_execute q w
        | Commit \<Rightarrow> pg_execute q w
        | SelectCount sc t \<Rightarrow> pg_execute q w),
      read_csv = pandas_read_csv, engine_connect = (\<lambda>w. None)\<rparr>"


text \<open>Two files to load one after the other.\<close>

definition two_files_state :: state where
  "two_files_state = example_state
     [''/data/sales.csv'' \<mapsto> sales_csv, ''/data/short.csv'' \<mapsto> [[''a'', ''b''], [''1'']]]
     Map.empty"

subsection \<open>Auxiliary notions for the proofs\<close>

text \<open>A statement keeps the local \<open>conn\<close> and the engine as they are.\<close>

definition keeps :: "'a prog \<Rightarrow> bool" where
  "keeps p = (\<forall>s. conn_bound (snd (p s)) = conn_bound s \<and> disposed (snd (p s)) = disposed s)"

text \<open>The state in which \<open>main\<close> calls \<open>csv_to_table\<close>, once the connection is there.\<close>

definition after_connect :: "string \<Rightarrow> state \<Rightarrow> state" where
  "after_connect msg s =
     (emit Connect (emit (Print msg) (s\<lparr>conn_bound := False, disposed := False\<rparr>)))
       \<lparr>conn_bound := True, closed := False\<rparr>"

text \<open>The state after the \<open>finally\<close> block of \<open>main\<close> has closed and disposed.\<close>

definition released :: "event list \<Rightarrow> state \<Rightarrow> state" where
  "released evs s = s\<lparr>closed := True, disposed := True, trace := trace s @ evs\<rparr>"

text \<open>A statement only appends events to the trace, all of them satisfying \<open>P\<close>.\<close>

definition emits :: "(event \<Rightarrow> bool) \<Rightarrow> 'a prog \<Rightarrow> bool" where
  "emits P p = (\<forall>s. \<exists>evs. trace (snd (p s)) = trace s @ evs \<and> list_all P evs)"


section \<open>Project statistics (ts_predictions.py)\<close>





text \<open>\<open>s.split(sep)\<close> for a non-empty separator: the pieces between its occurrences, found
  from the left. All three separators of the function end in a fixed character.\<close>

function split_aux :: "string \<Rightarrow> string \<Rightarrow> string \<Rightarrow> string list" where
  "split_aux sep piece [] = [piece]"
| "split_aux sep piece (c # cs) =
     (if sep \<noteq> [] \<and> take (length sep) (c # cs) = sep
      then piece # split_aux sep [] (drop (length sep) (c # cs))
      else split_aux sep (piece @ [c]) cs)"
  by pat_completeness auto
termination
  by (relation "measure (\<lambda>(sep, piece, s). length s)") auto

definition str_split :: "string \<Rightarrow> string \<Rightarrow> string list" where
  "str_split s sep = split_aux sep [] s"









section \<open>Properties of the loader\<close>

subsection \<open>What each step returns\<close>

lemma andthen_Inr_iff:
  "(andthen m f s = (Inr b, s')) = (\<exists>a s1. m s = (Inr a, s1) \<and> f a s1 = (Inr b, s'))"
  by (auto simp: andthen_def split: prod.splits sum.splits)

lemma andthen_Inl_iff:
  "(andthen m f s = (Inl e, s')) =
     (m s = (Inl e, s') \<or> (\<exists>a s1. m s = (Inr a, s1) \<and> f a s1 = (Inl e, s')))"
  by (auto simp: andthen_def split: prod.splits sum.splits)

lemma conn_execute_Inr_iff:
  "(conn_execute E q s = (Inr r, s1)) =
     (\<not> closed s \<and> (\<exists>w. db_execute E q (world s) = Inr (r, w)
        \<and> s1 = (emit (Execute q) s)\<lparr>world := w\<rparr>))"
  by (auto simp: conn_execute_def split: sum.splits)

lemma conn_execute_Inl_iff:
  "(conn_execute E q s = (Inl e, s1)) =
     (if closed s then e = ResourceClosedError \<and> s1 = s
      else db_execute E q (world s) = Inl e \<and> s1 = emit (Execute q) s)"
  by (auto simp: conn_execute_def split: sum.splits)

lemma read_header_Inr_iff:
  "(read_header fn s = (Inr h, s1)) =
     ((\<exists>rest. files (world s) fn = Some (h # rest)) \<and> s1 = emit (OpenRead fn) s)"
  by (auto simp: read_header_def split: option.splits list.splits)

lemma first_scalar_Inr_iff:
  "(first_scalar res s = (Inr n, s1)) = ((\<exists>vs rest. res = (n # vs) # rest) \<and> s1 = s)"
  by (auto simp: first_scalar_def split: list.splits)

lemma try_except_DataError_Inr_iff:
  "(try_except_DataError body h s = (Inr a, s')) =
     (body s = (Inr a, s') \<or> (\<exists>s1. body s = (Inl DataError, s1) \<and> h s1 = (Inr a, s')))"
  by (auto simp: try_except_DataError_def split: prod.splits sum.splits if_splits)

lemma print_eq: "(print msg s = (r, s1)) = (r = Inr () \<and> s1 = emit (Print msg) s)"
  by (auto simp: print_def)

lemma conn_close_eq:
  "(conn_close s = (r, s1)) = (r = Inr () \<and> s1 = (emit ConnClose s)\<lparr>closed := True\<rparr>)"
  by (auto simp: conn_close_def)

lemma return_eq: "(return a s = (r, s1)) = (r = Inr a \<and> s1 = s)"
  by (auto simp: return_def)

lemma emit_simps [simp]:
  "world (emit ev s) = world s" "closed (emit ev s) = closed s"
  "conn_bound (emit ev s) = conn_bound s" "disposed (emit ev s) = disposed s"
  "trace (emit ev s) = trace s @ [ev]"
  by (simp_all add: emit_def)

text \<open>What a successful run of \<open>csv_to_table\<close> went through.\<close>

lemma csv_to_table_Inr:
  assumes "csv_to_table E tablename schema file_name s = (Inr v, s')"
  shows "\<exists>s3 r4 s4 w5 num_rows vs rest.
     try_except_DataError (copy_commit E schema tablename file_name)
        (fallback E schema tablename file_name) s3 = (Inr r4, s4) \<and>
     \<not> closed s4 \<and>
     db_execute E (SelectCount schema tablename) (world s4) = Inr ((num_rows # vs) # rest, w5) \<and>
     s' = (emit ConnClose (emit (Print (rows_loaded num_rows))
            ((emit (Execute (SelectCount schema tablename)) s4)\<lparr>world := w5\<rparr>)))\<lparr>closed := True\<rparr> \<and>
     v = PyNone"
  using assms
  unfolding csv_to_table_def andthen_Inr_iff conn_execute_Inr_iff first_scalar_Inr_iff
    print_eq conn_close_eq return_eq
  by blast

lemmas run_defs = csv_to_table_def andthen_def conn_execute_def emit_def read_header_def
  try_except_DataError_def copy_commit_def fallback_def rewrite_as_text_def first_scalar_def
  print_def conn_close_def return_def

lemmas main_defs = main_def try_except_FileNotFoundError_finally_def connect_def
  close_local_conn_def engine_dispose_def

lemmas pg_defs = pg_env_def pg_execute_def pg_fields_def pandas_read_csv_def example_state_def

lemmas message_defs = rows_loaded_def str_int_def str_nat.simps digit_def

subsection \<open>The local connection and the engine are left to main\<close>


lemma keeps_andthen: "keeps m \<Longrightarrow> (\<And>a. keeps (f a)) \<Longrightarrow> keeps (andthen m f)"
proof -
  assume m: "keeps m" and f: "\<And>a. keeps (f a)"
  show "keeps (andthen m f)"
    unfolding keeps_def
  proof (intro allI)
    fix s
    obtain r s1 where ms: "m s = (r, s1)" by (cases "m s")
    have k1: "conn_bound s1 = conn_bound s \<and> disposed s1 = disposed s"
      using m ms unfolding keeps_def by (metis snd_conv)
    show "conn_bound (snd (andthen m f s)) = conn_bound s \<and>
          disposed (snd (andthen m f s)) = disposed s"
    proof (cases r)
      case (Inl e)
      then show ?thesis using ms k1 by (simp add: andthen_def)
    next
      case (Inr a)
      have "conn_bound (snd (f a s1)) = conn_bound s1 \<and> disposed (snd (f a s1)) = disposed s1"
        using f [of a] unfolding keeps_def by blast
      then show ?thesis using Inr ms k1 by (simp add: andthen_def)
    qed
  qed
qed

lemma keeps_try: "keeps b \<Longrightarrow> keeps h \<Longrightarrow> keeps (try_except_DataError b h)"
proof -
  assume b: "keeps b" and h: "keeps h"
  show "keeps (try_except_DataError b h)"
    unfolding keeps_def
  proof (intro allI)
    fix s
    obtain r s1 where bs: "b s = (r, s1)" by (cases "b s")
    have k1: "conn_bound s1 = conn_bound s \<and> disposed s1 = disposed s"
      using b bs unfolding keeps_def by (metis snd_conv)
    have k2: "conn_bound (snd (h s1)) = conn_bound s1 \<and> disposed (snd (h s1)) = disposed s1"
      using h unfolding keeps_def by blast
    show "conn_bound (snd (try_except_DataError b h s)) = conn_bound s \<and>
          disposed (snd (try_except_DataError b h s)) = disposed s"
      using bs k1 k2 by (cases r) (simp_all add: try_except_DataError_def)
  qed
qed


lemma keeps_return: "keeps (return a)" by (simp add: keeps_def return_def)
lemma keeps_print: "keeps (print msg)" by (simp add: keeps_def print_def)
lemma keeps_conn_execute: "keeps (conn_execute E q)"
  by (simp add: keeps_def conn_execute_def split: sum.splits)
lemma keeps_conn_close: "keeps conn_close" by (simp add: keeps_def conn_close_def)
lemma keeps_read_header: "keeps (read_header fn)"
  by (simp add: keeps_def read_header_def split: option.splits list.splits)
lemma keeps_rewrite_as_text: "keeps (rewrite_as_text E fn fn')"
  by (simp add: keeps_def rewrite_as_text_def split: option.splits sum.splits)
lemma keeps_first_scalar: "keeps (first_scalar res)"
  by (simp add: keeps_def first_scalar_def split: list.splits)

lemmas keeps_prims = keeps_return keeps_print keeps_conn_execute keeps_conn_close
  keeps_read_header keeps_rewrite_as_text keeps_first_scalar

lemma keeps_csv_to_table: "keeps (csv_to_table E t sc fn)"
  unfolding csv_to_table_def copy_commit_def fallback_def
  by (intro keeps_andthen keeps_try keeps_prims)

lemma csv_to_table_frame:
  "csv_to_table E t sc fn s = (r, s') \<Longrightarrow> conn_bound s' = conn_bound s \<and> disposed s' = disposed s"
  using keeps_csv_to_table [of E t sc fn] unfolding keeps_def by (metis snd_conv)

subsection \<open>main, once the connection is acquired or refused\<close>


lemma after_connect_simps [simp]:
  "world (after_connect msg s) = world s" "conn_bound (after_connect msg s)"
  "\<not> closed (after_connect msg s)" "\<not> disposed (after_connect msg s)"
  "trace (after_connect msg s) = trace s @ [Print msg, Connect]"
  by (simp_all add: after_connect_def)

lemma andthen_apply:
  "m s = (r, s1) \<Longrightarrow> andthen m f s = (case r of Inl e \<Rightarrow> (Inl e, s1) | Inr a \<Rightarrow> f a s1)"
  by (simp add: andthen_def split: sum.splits)

lemma print_apply: "print msg s = (Inr (), emit (Print msg) s)"
  by (simp add: print_def)

lemma main_connected:
  assumes conn: "engine_connect E (world s) = None"
    and run: "csv_to_table E t sc fn (after_connect (loading_message fn d sc t) s) = (r, s4)"
  shows "main E fn t d sc s =
     (case r of
        Inl e \<Rightarrow>
          if e = FileNotFoundError
          then (Inr PyNone,
                released [Print path_hint, ConnClose, EngineDispose, Print done_message] s4)
          else (Inl e, released [ConnClose, EngineDispose] s4)
      | Inr v \<Rightarrow> (Inr PyNone, released [ConnClose, EngineDispose, Print done_message] s4))"
    (is "_ = ?rhs")
proof -
  let ?L = "loading_message fn d sc t"
  let ?s0 = "s\<lparr>conn_bound := False, disposed := False\<rparr>"
  let ?body = "andthen (connect E) (\<lambda>_. andthen (csv_to_table E t sc fn) (\<lambda>_. return ()))"
  let ?final = "andthen close_local_conn (\<lambda>_. engine_dispose)"
  have c: "connect E (emit (Print ?L) ?s0) = (Inr (), after_connect ?L s)"
    using conn by (simp add: connect_def after_connect_def)
  have body: "?body (emit (Print ?L) ?s0) = (map_sum id (\<lambda>_. ()) r, s4)"
    by (cases r) (simp_all add: andthen_def c run return_def)
  have b4: "conn_bound s4" using csv_to_table_frame [OF run] by simp
  have fin: "\<And>evs. ?final (s4\<lparr>trace := trace s4 @ evs\<rparr>)
      = (Inr (), released (evs @ [ConnClose, EngineDispose]) s4)"
    using b4 by (simp add: andthen_def close_local_conn_def conn_close_def engine_dispose_def
        emit_def released_def)
  have fin0: "?final s4 = (Inr (), released [ConnClose, EngineDispose] s4)"
    using fin [of "[]"] by simp
  have tef: "try_except_FileNotFoundError_finally ?body (print path_hint) ?final
                (emit (Print ?L) ?s0) =
     (case r of Inl e \<Rightarrow> if e = FileNotFoundError
                  then (Inr (), released [Print path_hint, ConnClose, EngineDispose] s4)
                  else (Inl e, released [ConnClose, EngineDispose] s4)
      | Inr v \<Rightarrow> (Inr (), released [ConnClose, EngineDispose] s4))"
    unfolding try_except_FileNotFoundError_finally_def body
    using fin [of "[Print path_hint]"] fin0
    by (cases r) (simp_all add: print_def emit_def)
  have "main E fn t d sc s =
      andthen (try_except_FileNotFoundError_finally ?body (print path_hint) ?final)
        (\<lambda>_. andthen (print done_message) (\<lambda>_. return PyNone)) (emit (Print ?L) ?s0)"
    unfolding main_def by (simp add: andthen_apply [OF print_apply])
  also have "\<dots> = (case try_except_FileNotFoundError_finally ?body (print path_hint) ?final
                         (emit (Print ?L) ?s0) of
                    (Inl e, s') \<Rightarrow> (Inl e, s')
                  | (Inr a, s') \<Rightarrow> (Inr PyNone, emit (Print done_message) s'))"
    by (simp add: andthen_def print_def return_def split: prod.splits sum.splits)
  also have "\<dots> = ?rhs"
    unfolding tef by (cases r) (simp_all add: released_def emit_def)
  finally show ?thesis .
qed

lemma main_not_connected:
  assumes "engine_connect E (world s) = Some e"
  shows "main E fn t d sc s =
     (Inl UnboundLocalError,
      s\<lparr>conn_bound := False, disposed := False,
        trace := trace s @ [Print (loading_message fn d sc t), Connect]
                  @ (if e = FileNotFoundError then [Print path_hint] else [])\<rparr>)"
    (is "_ = ?rhs")
proof -
  let ?L = "loading_message fn d sc t"
  let ?s0 = "s\<lparr>conn_bound := False, disposed := False\<rparr>"
  let ?body = "andthen (connect E) (\<lambda>_. andthen (csv_to_table E t sc fn) (\<lambda>_. return ()))"
  let ?final = "andthen close_local_conn (\<lambda>_. engine_dispose)"
  have body: "?body (emit (Print ?L) ?s0) = (Inl e, emit Connect (emit (Print ?L) ?s0))"
    using assms by (simp add: andthen_def connect_def)
  have tef: "try_except_FileNotFoundError_finally ?body (print path_hint) ?final
                (emit (Print ?L) ?s0) =
       (Inl UnboundLocalError,
          s\<lparr>conn_bound := False, disposed := False,
        trace := trace s @ [Print (loading_message fn d sc t), Connect]
                  @ (if e = FileNotFoundError then [Print path_hint] else [])\<rparr>)"
    unfolding try_except_FileNotFoundError_finally_def body
    by (simp add: print_def emit_def andthen_def close_local_conn_def)
  have "main E fn t d sc s =
      andthen (try_except_FileNotFoundError_finally ?body (print path_hint) ?final)
        (\<lambda>_. andthen (print done_message) (\<lambda>_. return PyNone)) (emit (Print ?L) ?s0)"
    unfolding main_def by (simp add: andthen_apply [OF print_apply])
  also have "\<dots> = ?rhs"
    by (simp add: andthen_def tef)
  finally show ?thesis .
qed

subsection \<open>csv_to_table on the reference environment\<close>


lemma distinct_text_cols [simp]: "distinct (map fst (map (\<lambda>col. (col, ty)) header)) = distinct header"
  by (simp add: comp_def)

lemma pg_csv_to_table:
  assumes "\<not> closed s"
  shows "csv_to_table (pg_env rc) t sc fn s =
    (let w1 = (world s)\<lparr>tables := (tables (world s))((sc, t) := None)\<rparr>;
         T1 = trace s @ [Execute (DropTableIfExists sc t), OpenRead fn]
     in case files (world s) fn of
          None \<Rightarrow> (Inl FileNotFoundError, s\<lparr>world := w1, trace := T1\<rparr>)
        | Some f \<Rightarrow>
           (case f of [] \<Rightarrow> (Inl StopIteration, s\<lparr>world := w1, trace := T1\<rparr>)
            | header # recs \<Rightarrow>
               (let cols = map (\<lambda>col. (col, ''text'')) header;
                    k = length header;
                    w2 = w1\<lparr>tables := (tables w1)((sc, t) \<mapsto> \<lparr>columns = cols, rows = []\<rparr>)\<rparr>;
                    T2 = T1 @ [Execute (CreateTable sc t cols), Execute (CopyFrom sc t fn)];
                    tail = (\<lambda>n. [Execute Commit, Execute (SelectCount sc t),
                                   Print (rows_loaded (int n)), ConnClose])
                in if \<not> distinct header
                   then (Inl (OtherError ''DuplicateColumn''),
                         s\<lparr>world := w1, trace := T1 @ [Execute (CreateTable sc t cols)]\<rparr>)
                   else if list_all (\<lambda>r. length r = k) (map (pg_fields k) recs)
                   then (Inr PyNone,
                         s\<lparr>world := w1\<lparr>tables := (tables w1)((sc, t) \<mapsto>
                                 \<lparr>columns = cols, rows = map (pg_fields k) recs\<rparr>)\<rparr>,
                           closed := True, trace := T2 @ tail (length recs)\<rparr>)
                   else
                     (case rc f of
                        Inl e \<Rightarrow> (Inl e, s\<lparr>world := w2, trace := T2 @ [ReadCsv fn]\<rparr>)
                      | Inr g \<Rightarrow>
                          (let F = (files (world s))(fn @ ''_tmp'' \<mapsto> g);
                               T3 = T2 @ [ReadCsv fn, ToCsv (fn @ ''_tmp''),
                                          Execute (CopyFrom sc t (fn @ ''_tmp''))]
                           in if list_all (\<lambda>r. length r = k) (map (pg_fields k) (drop 1 g))
                              then (Inr PyNone,
                                    s\<lparr>world := w1\<lparr>files := F, tables := (tables w1)((sc, t) \<mapsto>
                                          \<lparr>columns = cols, rows = map (pg_fields k) (drop 1 g)\<rparr>)\<rparr>,
                                      closed := True, trace := T3 @ tail (length (drop 1 g))\<rparr>)
                              else (Inl DataError, s\<lparr>world := w2\<lparr>files := F\<rparr>, trace := T3\<rparr>))))))"
  using assms
  by (simp add: run_defs pg_env_def pg_execute_def Let_def comp_def split: option.splits list.splits sum.splits)

lemmas example_defs = sales_csv_def sales_state_def old_sales_state_def example_state_def

lemmas eval_defs = pg_csv_to_table Let_def example_defs pg_fields_def

lemma csv_to_table_closed:
  "closed s \<Longrightarrow> csv_to_table E t sc fn s = (Inl ResourceClosedError, s)"
  by (simp add: csv_to_table_def andthen_def conn_execute_def)

lemma sales_run_fst:
  "fst (csv_to_table (pg_env pandas_read_csv) ''sales'' ''public'' ''/data/sales.csv'' sales_state)
     = Inr PyNone"
  by (simp add: eval_defs)

section \<open>The claims about the loader\<close>

subsection \<open>The connection is closed by csv_to_table\<close>

text \<open>
  Claim C9. On every successful run, \<open>csv_to_table\<close> closes the connection passed to it
  before it returns: in the state it returns the connection is closed, and any further
  statement executed on it raises without reaching the database. This holds for every
  behaviour of the database and of pandas.
\<close>

theorem csv_to_table_closes_connection:
  assumes "csv_to_table E tablename schema file_name s = (Inr v, s')"
  shows "closed s' \<and> conn_execute E q s' = (Inl ResourceClosedError, s')"
  using csv_to_table_Inr [OF assms] by (auto simp: conn_execute_def)

theorem csv_to_table_closes_connection_witness:
  "closed (snd (csv_to_table (pg_env pandas_read_csv) ''sales'' ''public'' ''/data/sales.csv''
                  sales_state)) \<and>
   fst (conn_execute (pg_env pandas_read_csv) Commit
     (snd (csv_to_table (pg_env pandas_read_csv) ''sales'' ''public'' ''/data/sales.csv''
                  sales_state))) = Inl ResourceClosedError"
proof -
  let ?run = "csv_to_table (pg_env pandas_read_csv) ''sales'' ''public'' ''/data/sales.csv''
                  sales_state"
  have "?run = (Inr PyNone, snd ?run)"
    using sales_run_fst by (simp add: prod_eq_iff)
  from csv_to_table_closes_connection [OF this, of Commit] show ?thesis by simp
qed

subsection \<open>The count is printed, not returned\<close>

text \<open>
  Claim C4, as amended. After the load, \<open>csv_to_table\<close> queries \<open>SELECT count(*)\<close> on the
  target table, takes the first scalar of the answer and prints it in the line
  \<open>"\t<count> rows loaded."\<close>; the last three events of a successful run are that query,
  that print and the closing of the connection. The value it returns to the caller is
  \<open>None\<close>, never the count.
\<close>

theorem csv_to_table_prints_count_returns_None:
  assumes "csv_to_table E tablename schema file_name s = (Inr v, s')"
  shows "v = PyNone \<and>
    (\<exists>w num_rows vs rest pre.
       db_execute E (SelectCount schema tablename) w = Inr ((num_rows # vs) # rest, world s') \<and>
       trace s' = pre @ [Execute (SelectCount schema tablename),
                         Print (rows_loaded num_rows), ConnClose])"
  using csv_to_table_Inr [OF assms]
  apply clarsimp
  by blast

theorem csv_to_table_prints_count_returns_None_witness:
  "fst (csv_to_table (pg_env pandas_read_csv) ''sales'' ''public'' ''/data/sales.csv''
          sales_state) = Inr PyNone \<and>
   (\<exists>w num_rows vs rest pre.
       db_execute (pg_env pandas_read_csv) (SelectCount ''public'' ''sales'') w
         = Inr ((num_rows # vs) # rest,
             world (snd (csv_to_table (pg_env pandas_read_csv) ''sales'' ''public''
                           ''/data/sales.csv'' sales_state))) \<and>
       trace (snd (csv_to_table (pg_env pandas_read_csv) ''sales'' ''public''
                           ''/data/sales.csv'' sales_state))
         = pre @ [Execute (SelectCount ''public'' ''sales''),
                  Print (rows_loaded num_rows), ConnClose])"
proof -
  let ?run = "csv_to_table (pg_env pandas_read_csv) ''sales'' ''public'' ''/data/sales.csv''
                  sales_state"
  have "?run = (Inr PyNone, snd ?run)"
    using sales_run_fst by (simp add: prod_eq_iff)
  from csv_to_table_prints_count_returns_None [OF this] sales_run_fst show ?thesis by simp
qed

text \<open>
  The claim as stated fails: loading the three-row file \<open>sales.csv\<close> prints
  \<open>"\t3 rows loaded."\<close> after the count query, and the value returned is not 3.
\<close>

theorem csv_to_table_returns_count_counterexample:
  "fst (csv_to_table (pg_env pandas_read_csv) ''sales'' ''public'' ''/data/sales.csv''
          sales_state) \<noteq> Inr (PyInt 3) \<and>
   drop 5 (trace (snd (csv_to_table (pg_env pandas_read_csv) ''sales'' ''public''
                    ''/data/sales.csv'' sales_state)))
     = [Execute (SelectCount ''public'' ''sales''), Print (rows_loaded 3), ConnClose] \<and>
   rows_loaded 3 = CHR 0x09 # ''3 rows loaded.''"
  by (simp add: eval_defs message_defs)

subsection \<open>What a run adds to the trace\<close>

lemma emitsD:
  "emits P p \<Longrightarrow> p s = (r, s') \<Longrightarrow> \<exists>evs. trace s' = trace s @ evs \<and> list_all P evs"
  unfolding emits_def by (metis snd_conv)

lemma emits_andthen:
  assumes m: "emits P m" and f: "\<And>a. emits P (f a)"
  shows "emits P (andthen m f)"
  unfolding emits_def
proof (intro allI)
  fix s
  obtain r s1 where ms: "m s = (r, s1)" by (cases "m s")
  from emitsD [OF m ms] obtain evs where e1: "trace s1 = trace s @ evs" "list_all P evs"
    by blast
  show "\<exists>evs. trace (snd (andthen m f s)) = trace s @ evs \<and> list_all P evs"
  proof (cases r)
    case (Inl e)
    then show ?thesis using ms e1 by (simp add: andthen_def)
  next
    case (Inr a)
    obtain r2 s2 where fs: "f a s1 = (r2, s2)" by (cases "f a s1")
    from emitsD [OF f fs] obtain evs2 where e2: "trace s2 = trace s1 @ evs2" "list_all P evs2"
      by blast
    have "trace (snd (andthen m f s)) = trace s @ (evs @ evs2)"
      using Inr ms fs e1 e2 by (simp add: andthen_def)
    moreover have "list_all P (evs @ evs2)" using e1 e2 by simp
    ultimately show ?thesis by blast
  qed
qed

lemma emits_try:
  assumes b: "emits P b" and h: "emits P h"
  shows "emits P (try_except_DataError b h)"
  unfolding emits_def
proof (intro allI)
  fix s
  obtain r s1 where bs: "b s = (r, s1)" by (cases "b s")
  from emitsD [OF b bs] obtain evs where e1: "trace s1 = trace s @ evs" "list_all P evs"
    by blast
  obtain r2 s2 where hs: "h s1 = (r2, s2)" by (cases "h s1")
  from emitsD [OF h hs] obtain evs2 where e2: "trace s2 = trace s1 @ evs2" "list_all P evs2"
    by blast
  have l: "list_all P (evs @ evs2)" using e1 e2 by simp
  show "\<exists>evs. trace (snd (try_except_DataError b h s)) = trace s @ evs \<and> list_all P evs"
  proof (cases r)
    case (Inl e)
    show ?thesis
    proof (cases "e = DataError")
      case True
      have "trace (snd (try_except_DataError b h s)) = trace s @ (evs @ evs2)"
        using Inl True bs hs e1 e2 by (simp add: try_except_DataError_def)
      with l show ?thesis by blast
    next
      case False
      then show ?thesis using Inl bs e1 by (simp add: try_except_DataError_def)
    qed
  next
    case (Inr a)
    then show ?thesis using bs e1 by (simp add: try_except_DataError_def)
  qed
qed

lemma emits_return: "emits P (return a)"
  by (simp add: emits_def return_def)

lemma emits_first_scalar: "emits P (first_scalar res)"
  by (simp add: emits_def first_scalar_def split: list.splits)

lemma emits_print: "P (Print msg) \<Longrightarrow> emits P (print msg)"
  by (simp add: emits_def print_def)

lemma emits_conn_close: "P ConnClose \<Longrightarrow> emits P conn_close"
  by (simp add: emits_def conn_close_def)

lemma emits_read_header: "P (OpenRead fn) \<Longrightarrow> emits P (read_header fn)"
  by (simp add: emits_def read_header_def split: option.splits list.splits)

lemma emits_rewrite_as_text:
  "P (ReadCsv fn) \<Longrightarrow> P (ToCsv fn') \<Longrightarrow> emits P (rewrite_as_text E fn fn')"
  by (simp add: emits_def rewrite_as_text_def split: option.splits sum.splits)

lemma emits_conn_execute: "P (Execute q) \<Longrightarrow> emits P (conn_execute E q)"
  unfolding emits_def
proof (intro allI)
  fix s
  assume p: "P (Execute q)"
  show "\<exists>evs. trace (snd (conn_execute E q s)) = trace s @ evs \<and> list_all P evs"
  proof (cases "closed s")
    case True
    then show ?thesis by (simp add: conn_execute_def)
  next
    case False
    then have "trace (snd (conn_execute E q s)) = trace s @ [Execute q]"
      by (simp add: conn_execute_def split: sum.splits)
    with p show ?thesis by simp
  qed
qed

lemma conn_execute_open:
  "\<not> closed s \<Longrightarrow> conn_execute E q s =
     (case db_execute E q (world s) of
        Inl e \<Rightarrow> (Inl e, emit (Execute q) s)
      | Inr (res, w) \<Rightarrow> (Inr res, (emit (Execute q) s)\<lparr>world := w\<rparr>))"
  by (simp add: conn_execute_def)

subsection \<open>A header without columns is not rejected\<close>

text \<open>
  Claim C8, as amended. \<open>csv_to_table\<close> does not validate the header. For a source file
  whose header row has zero fields, once the DROP has succeeded the header read succeeds
  and the next thing sent to the database is \<open>CREATE TABLE\<close> with an empty column list:
  the loader raises no invalid-header error of its own, and whether the run then fails is
  up to the database.
\<close>

theorem csv_to_table_empty_header_creates_table:
  assumes op: "\<not> closed s"
    and dr: "db_execute E (DropTableIfExists schema tablename) (world s) = Inr (res, w)"
    and fl: "files w file_name = Some ([] # recs)"
  shows "\<exists>rest. trace (snd (csv_to_table E tablename schema file_name s)) =
           trace s @ [Execute (DropTableIfExists schema tablename), OpenRead file_name,
                      Execute (CreateTable schema tablename [])] @ rest"
proof -
  let ?s1 = "(emit (Execute (DropTableIfExists schema tablename)) s)\<lparr>world := w\<rparr>"
  let ?s2 = "emit (OpenRead file_name) ?s1"
  let ?K = "\<lambda>_::int list list.
     andthen (try_except_DataError
                (copy_commit E schema tablename file_name)
                (fallback E schema tablename file_name)) (\<lambda>_.
     andthen (conn_execute E (SelectCount schema tablename)) (\<lambda>res.
     andthen (first_scalar res) (\<lambda>num_rows.
     andthen (print (rows_loaded num_rows)) (\<lambda>_.
     andthen conn_close (\<lambda>_.
     return PyNone)))))"
  let ?C = "andthen (conn_execute E (CreateTable schema tablename [])) ?K"
  have d: "conn_execute E (DropTableIfExists schema tablename) s = (Inr res, ?s1)"
    using op dr by (simp add: conn_execute_def)
  have h: "read_header file_name ?s1 = (Inr [], ?s2)"
    using fl by (simp add: read_header_def)
  have run: "csv_to_table E tablename schema file_name s = ?C ?s2"
    unfolding csv_to_table_def
    by (simp add: andthen_def d h)
  have "emits (\<lambda>ev. True) (?K a)" for a
    unfolding copy_commit_def fallback_def
    by (intro emits_andthen emits_try emits_return emits_first_scalar emits_print
          emits_conn_close emits_rewrite_as_text emits_conn_execute TrueI)
  then have k: "\<exists>evs. trace (snd (?K a s3)) = trace s3 @ evs" for a s3
    unfolding emits_def by blast
  have o2: "\<not> closed ?s2" using op by simp
  show ?thesis
  proof (cases "db_execute E (CreateTable schema tablename []) (world ?s2)")
    case (Inl e)
    then have "?C ?s2 = (Inl e, emit (Execute (CreateTable schema tablename [])) ?s2)"
      using o2 by (simp add: andthen_def conn_execute_def)
    then show ?thesis unfolding run by simp
  next
    case (Inr p)
    obtain r3 w3 where p: "p = (r3, w3)" by (cases p)
    let ?s3 = "(emit (Execute (CreateTable schema tablename [])) ?s2)\<lparr>world := w3\<rparr>"
    have "?C ?s2 = ?K r3 ?s3"
      using o2 Inr p by (simp add: andthen_def conn_execute_def)
    moreover from k [where ?s3.0 = ?s3] obtain evs where "trace (snd (?K r3 ?s3)) = trace ?s3 @ evs"
      by blast
    ultimately show ?thesis unfolding run by simp
  qed
qed


lemma pg_drop:
  "db_execute (pg_env rc) (DropTableIfExists sc t) w
     = Inr ([], w\<lparr>tables := (tables w)((sc, t) := None)\<rparr>)"
  by (simp add: pg_env_def pg_execute_def)

theorem csv_to_table_empty_header_creates_table_witness:
  "\<not> closed blank_header_state \<and>
   files (world blank_header_state) ''/data/blank.csv'' = Some ([] # []) \<and>
   (\<exists>rest. trace (snd (csv_to_table (pg_env pandas_read_csv) ''t'' ''public''
                         ''/data/blank.csv'' blank_header_state)) =
       trace blank_header_state @
         [Execute (DropTableIfExists ''public'' ''t''), OpenRead ''/data/blank.csv'',
          Execute (CreateTable ''public'' ''t'' [])] @ rest)"
proof -
  have op: "\<not> closed blank_header_state"
    by (simp add: blank_header_state_def example_state_def)
  have fl: "files ((world blank_header_state)
               \<lparr>tables := (tables (world blank_header_state))((''public'', ''t'') := None)\<rparr>)
             ''/data/blank.csv'' = Some ([] # [])"
    by (simp add: blank_header_state_def example_state_def)
  from csv_to_table_empty_header_creates_table [OF op pg_drop fl] op fl
  show ?thesis by simp
qed

text \<open>
  The claim as stated fails: for a file whose only line is blank the load does not fail
  at all on the reference environment; the table is created, with no column.
\<close>

theorem csv_to_table_zero_columns_counterexample:
  "files (world blank_header_state) ''/data/blank.csv'' = Some [[]] \<and>
   fst (csv_to_table (pg_env pandas_read_csv) ''t'' ''public'' ''/data/blank.csv''
          blank_header_state) = Inr PyNone \<and>
   tables (world (snd (csv_to_table (pg_env pandas_read_csv) ''t'' ''public''
          ''/data/blank.csv'' blank_header_state))) (''public'', ''t'')
     = Some \<lparr>columns = [], rows = []\<rparr> \<and>
   take 3 (trace (snd (csv_to_table (pg_env pandas_read_csv) ''t'' ''public''
          ''/data/blank.csv'' blank_header_state)))
     = [Execute (DropTableIfExists ''public'' ''t''), OpenRead ''/data/blank.csv'',
        Execute (CreateTable ''public'' ''t'' [])]"
  by (simp add: pg_csv_to_table Let_def blank_header_state_def example_state_def pg_fields_def)

text \<open>A file with no line at all stops at the header read, after the DROP.\<close>

lemma csv_to_table_empty_file:
  assumes op: "\<not> closed s"
    and dr: "db_execute E (DropTableIfExists schema tablename) (world s) = Inr (res, w)"
    and fl: "files w file_name = Some []"
  shows "csv_to_table E tablename schema file_name s =
     (Inl StopIteration,
      emit (OpenRead file_name)
        ((emit (Execute (DropTableIfExists schema tablename)) s)\<lparr>world := w\<rparr>))"
  using assms by (simp add: csv_to_table_def andthen_def conn_execute_def read_header_def)

subsection \<open>A missing file is found out after the DROP\<close>

lemma csv_to_table_missing_file:
  assumes op: "\<not> closed s"
    and dr: "db_execute E (DropTableIfExists schema tablename) (world s) = Inr (res, w)"
    and fl: "files w file_name = None"
  shows "csv_to_table E tablename schema file_name s =
     (Inl FileNotFoundError,
      emit (OpenRead file_name)
        ((emit (Execute (DropTableIfExists schema tablename)) s)\<lparr>world := w\<rparr>))"
  using assms by (simp add: csv_to_table_def andthen_def conn_execute_def read_header_def)

lemma main_missing_file:
  assumes cn: "engine_connect E (world s) = None"
    and dr: "db_execute E (DropTableIfExists schema tablename) (world s) = Inr (res, w)"
    and fl: "files w file_name = None"
  shows "main E file_name tablename database schema s =
     (Inr PyNone,
      released [Print path_hint, ConnClose, EngineDispose, Print done_message]
        (emit (OpenRead file_name)
          ((emit (Execute (DropTableIfExists schema tablename))
             (after_connect (loading_message file_name database schema tablename) s))
           \<lparr>world := w\<rparr>)))"
proof -
  let ?A = "after_connect (loading_message file_name database schema tablename) s"
  have "csv_to_table E tablename schema file_name ?A =
     (Inl FileNotFoundError,
      emit (OpenRead file_name)
        ((emit (Execute (DropTableIfExists schema tablename)) ?A)\<lparr>world := w\<rparr>))"
    by (rule csv_to_table_missing_file [where res = res]) (simp_all add: dr fl)
  from main_connected [OF cn this] show ?thesis by simp
qed

text \<open>
  Claim C2, as amended. For a file path that does not exist, once the connection is
  acquired and the DROP has succeeded, the load reports the missing file: the path hint
  is printed, the connection is closed, the engine disposed, and \<open>main\<close> ends normally.
  \<open>DROP TABLE IF EXISTS\<close> is the one statement sent to the database, and it is sent
  before the header read fails; neither CREATE nor COPY follows.
\<close>

theorem main_missing_file_drops_then_reports:
  assumes cn: "engine_connect E (world s) = None"
    and dr: "db_execute E (DropTableIfExists schema tablename) (world s) = Inr (res, w)"
    and fl: "files w file_name = None"
  shows "fst (main E file_name tablename database schema s) = Inr PyNone \<and>
     world (snd (main E file_name tablename database schema s)) = w \<and>
     closed (snd (main E file_name tablename database schema s)) \<and>
     disposed (snd (main E file_name tablename database schema s)) \<and>
     trace (snd (main E file_name tablename database schema s)) =
       trace s @ [Print (loading_message file_name database schema tablename), Connect,
                  Execute (DropTableIfExists schema tablename), OpenRead file_name,
                  Print path_hint, ConnClose, EngineDispose, Print done_message]"
  by (simp add: main_missing_file [OF assms] released_def)

lemma pg_connect: "engine_connect (pg_env rc) w = None"
  by (simp add: pg_env_def)

theorem main_missing_file_drops_then_reports_witness:
  "files (world old_sales_state) ''/no/such/file.csv'' = None \<and>
   fst (main (pg_env pandas_read_csv) ''/no/such/file.csv'' ''sales'' ''postgres'' ''public''
          old_sales_state) = Inr PyNone \<and>
   trace (snd (main (pg_env pandas_read_csv) ''/no/such/file.csv'' ''sales'' ''postgres''
                 ''public'' old_sales_state)) =
     [Print (loading_message ''/no/such/file.csv'' ''postgres'' ''public'' ''sales''), Connect,
      Execute (DropTableIfExists ''public'' ''sales''), OpenRead ''/no/such/file.csv'',
      Print path_hint, ConnClose, EngineDispose, Print done_message]"
proof -
  have fl: "files ((world old_sales_state)
               \<lparr>tables := (tables (world old_sales_state))((''public'', ''sales'') := None)\<rparr>)
             ''/no/such/file.csv'' = None"
    by (simp add: example_defs)
  have tr: "trace old_sales_state = []" by (simp add: example_defs)
  from main_missing_file_drops_then_reports [OF pg_connect pg_drop fl] fl tr
  show ?thesis by simp
qed

text \<open>
  The claim as stated fails: with a table left by an earlier load and no file at the
  path, the DROP is the third event of the run, before the file is opened, and the table
  is gone afterwards.
\<close>

theorem main_missing_file_no_drop_counterexample:
  "files (world old_sales_state) ''/no/such/file.csv'' = None \<and>
   tables (world old_sales_state) (''public'', ''sales'')
     = Some \<lparr>columns = [(''date'', ''text'')], rows = [[''2019-12-31'']]\<rparr> \<and>
   tables (world (snd (main (pg_env pandas_read_csv) ''/no/such/file.csv'' ''sales''
                         ''postgres'' ''public'' old_sales_state))) (''public'', ''sales'')
     = None \<and>
   take 2 (drop 2 (trace (snd (main (pg_env pandas_read_csv) ''/no/such/file.csv'' ''sales''
                         ''postgres'' ''public'' old_sales_state))))
     = [Execute (DropTableIfExists ''public'' ''sales''), OpenRead ''/no/such/file.csv'']"
proof -
  have fl: "files ((world old_sales_state)
               \<lparr>tables := (tables (world old_sales_state))((''public'', ''sales'') := None)\<rparr>)
             ''/no/such/file.csv'' = None"
    by (simp add: example_defs)
  show ?thesis
    unfolding main_missing_file [OF pg_connect pg_drop fl]
    by (simp add: released_def example_defs)
qed

subsection \<open>The finally block of main\<close>

text \<open>
  Claim C5 fails when the connection cannot be acquired. \<open>conn\<close> is then unbound in the
  \<open>finally\<close> block, \<open>conn.close()\<close> raises \<open>UnboundLocalError\<close>, and \<open>engine.dispose()\<close>
  is never reached: \<open>main\<close> ends with that error, the engine not disposed, and neither
  a close nor a dispose among its events.
\<close>

theorem main_connect_failure_skips_dispose:
  assumes "engine_connect E (world s) = Some e"
  shows "fst (main E file_name tablename database schema s) = Inl UnboundLocalError \<and>
     \<not> disposed (snd (main E file_name tablename database schema s)) \<and>
     EngineDispose \<notin> set (drop (length (trace s))
        (trace (snd (main E file_name tablename database schema s)))) \<and>
     ConnClose \<notin> set (drop (length (trace s))
        (trace (snd (main E file_name tablename database schema s))))"
  by (simp add: main_not_connected [OF assms])

theorem main_connect_failure_skips_dispose_witness:
  "engine_connect refusing_env (world sales_state) = Some (OtherError ''OperationalError'') \<and>
   fst (main refusing_env ''/data/sales.csv'' ''sales'' ''postgres'' ''public'' sales_state)
     = Inl UnboundLocalError \<and>
   \<not> disposed (snd (main refusing_env ''/data/sales.csv'' ''sales'' ''postgres'' ''public''
                      sales_state)) \<and>
   EngineDispose \<notin> set (trace (snd (main refusing_env ''/data/sales.csv'' ''sales''
                      ''postgres'' ''public'' sales_state)))"
proof -
  have h: "engine_connect refusing_env (world sales_state) = Some (OtherError ''OperationalError'')"
    by (simp add: refusing_env_def)
  have tr: "trace sales_state = []" by (simp add: example_defs)
  from main_connect_failure_skips_dispose [OF h] h tr show ?thesis by simp
qed

text \<open>On every path where the connection was acquired, both are released.\<close>

lemma main_releases_when_connected:
  assumes "engine_connect E (world s) = None"
  shows "closed (snd (main E file_name tablename database schema s)) \<and>
     disposed (snd (main E file_name tablename database schema s))"
proof -
  obtain r s4 where
    "csv_to_table E tablename schema file_name
        (after_connect (loading_message file_name database schema tablename) s) = (r, s4)"
    by (cases "csv_to_table E tablename schema file_name
        (after_connect (loading_message file_name database schema tablename) s)")
  from main_connected [OF assms this] show ?thesis
    by (cases r) (simp_all add: released_def)
qed

theorem main_releases_when_connected_witness:
  "closed (snd (main (pg_env pandas_read_csv) ''/data/sales.csv'' ''sales'' ''postgres''
                  ''public'' sales_state)) \<and>
   disposed (snd (main (pg_env pandas_read_csv) ''/data/sales.csv'' ''sales'' ''postgres''
                    ''public'' sales_state))"
  using main_releases_when_connected [OF pg_connect] by blast

subsection \<open>One retry, on a data error only\<close>

lemma fallback_trace:
  assumes "\<not> closed s" and "fallback E sc t fn s = (r4, s4)"
  shows "case r4 of
           Inl e \<Rightarrow>
             trace s4 = trace s @ [ReadCsv fn] \<or>
             trace s4 = trace s @ [ReadCsv fn, ToCsv (fn @ ''_tmp''),
                                   Execute (CopyFrom sc t (fn @ ''_tmp''))] \<or>
             trace s4 = trace s @ [ReadCsv fn, ToCsv (fn @ ''_tmp''),
                                   Execute (CopyFrom sc t (fn @ ''_tmp'')), Execute Commit]
         | Inr a \<Rightarrow>
             trace s4 = trace s @ [ReadCsv fn, ToCsv (fn @ ''_tmp''),
                                   Execute (CopyFrom sc t (fn @ ''_tmp'')), Execute Commit]"
  using assms
  by (auto simp: fallback_def copy_commit_def rewrite_as_text_def andthen_def conn_execute_def
      split: option.splits sum.splits prod.splits)

lemma tail_emits:
  "emits (\<lambda>ev. ev \<noteq> ReadCsv fn \<and> ev \<noteq> ToCsv fn' \<and> ev \<noteq> Execute (CopyFrom sc t fn'))
     (andthen (conn_execute E (SelectCount sc t)) (\<lambda>res.
      andthen (first_scalar res) (\<lambda>num_rows.
      andthen (print (rows_loaded num_rows)) (\<lambda>_.
      andthen conn_close (\<lambda>_.
      return PyNone)))))"
  by (intro emits_andthen emits_return emits_first_scalar emits_print
        emits_conn_close emits_conn_execute) simp_all


text \<open>
  Claim C3. Take a run that has reached the COPY: the connection is open, the DROP has
  succeeded, the header was read and the CREATE has succeeded. Assume that \<open>commit\<close>
  raises no data error (it is inside the same \<open>try\<close> as the COPY). Then:
  \<^item> the file is re-read by pandas (and so the fallback entered) if and only if the first
    COPY fails with a data error;
  \<^item> in that case the handler runs once from the state the failed COPY left: it re-reads
    the file, writes it to \<open>file_name + "_tmp"\<close>, sends the COPY of that file and the commit,
    each at most once and in this order; if any of these steps fails, its error (a data
    error included) is the result of \<open>csv_to_table\<close> and nothing more happens; if all
    succeed, nothing that follows is a re-read, a rewrite or a COPY of the rewritten file;
  \<^item> an error of the first COPY that is not a data error is the result of
    \<open>csv_to_table\<close>, the failed COPY being the last event;
  \<^item> when the first COPY succeeds, nothing is rewritten and the rewritten file is never
    copied.
\<close>

theorem csv_to_table_retries_once_on_data_error:
  assumes op: "\<not> closed s"
    and dr: "db_execute E (DropTableIfExists schema tablename) (world s) = Inr (r1, w1)"
    and fl: "files w1 file_name = Some (header # recs)"
    and cr: "db_execute E (CreateTable schema tablename (map (\<lambda>col. (col, ''text'')) header)) w1
               = Inr (r2, w2)"
    and cm: "\<forall>w. db_execute E Commit w \<noteq> Inl DataError"
    and run: "csv_to_table E tablename schema file_name s = (r, s')"
  shows "((ReadCsv file_name \<in> set (drop (length (trace s)) (trace s')))
            = (db_execute E (CopyFrom schema tablename file_name) w2 = Inl DataError)) \<and>
         (case db_execute E (CopyFrom schema tablename file_name) w2 of
            Inl e \<Rightarrow>
              if e = DataError
              then
                (case fallback E schema tablename file_name
                        (s\<lparr>trace := trace s @
                             [Execute (DropTableIfExists schema tablename), OpenRead file_name,
                              Execute (CreateTable schema tablename
                                         (map (\<lambda>col. (col, ''text'')) header)),
                              Execute (CopyFrom schema tablename file_name)], world := w2\<rparr>) of
                   (Inl e', s4) \<Rightarrow>
                     r = Inl e' \<and> s' = s4 \<and>
                     (\<exists>done. trace s4 = trace s @
                        [Execute (DropTableIfExists schema tablename), OpenRead file_name,
                         Execute (CreateTable schema tablename
                                    (map (\<lambda>col. (col, ''text'')) header)),
                         Execute (CopyFrom schema tablename file_name)] @ done \<and>
                        (done = [ReadCsv file_name] \<or>
                         done = [ReadCsv file_name, ToCsv (file_name @ ''_tmp''),
                                 Execute (CopyFrom schema tablename (file_name @ ''_tmp''))] \<or>
                         done = [ReadCsv file_name, ToCsv (file_name @ ''_tmp''),
                                 Execute (CopyFrom schema tablename (file_name @ ''_tmp'')),
                                 Execute Commit]))
                 | (Inr a, s4) \<Rightarrow>
                     (\<exists>rest. trace s' = trace s @
                        [Execute (DropTableIfExists schema tablename), OpenRead file_name,
                         Execute (CreateTable schema tablename
                                    (map (\<lambda>col. (col, ''text'')) header)),
                         Execute (CopyFrom schema tablename file_name),
                         ReadCsv file_name, ToCsv (file_name @ ''_tmp''),
                         Execute (CopyFrom schema tablename (file_name @ ''_tmp'')),
                         Execute Commit] @ rest \<and>
                        list_all (\<lambda>ev. ev \<noteq> ReadCsv file_name
                                    \<and> ev \<noteq> ToCsv (file_name @ ''_tmp'')
                                    \<and> ev \<noteq> Execute (CopyFrom schema tablename
                                                      (file_name @ ''_tmp''))) rest))
              else
                r = Inl e \<and>
                s' = s\<lparr>trace := trace s @
                         [Execute (DropTableIfExists schema tablename), OpenRead file_name,
                          Execute (CreateTable schema tablename
                                     (map (\<lambda>col. (col, ''text'')) header)),
                          Execute (CopyFrom schema tablename file_name)], world := w2\<rparr>
          | Inr ok \<Rightarrow>
              ToCsv (file_name @ ''_tmp'') \<notin> set (drop (length (trace s)) (trace s')) \<and>
              Execute (CopyFrom schema tablename (file_name @ ''_tmp''))
                \<notin> set (drop (length (trace s)) (trace s')))"
proof -
  let ?tmp = "file_name @ ''_tmp''"
  let ?cols = "map (\<lambda>col. (col, ''text'')) header"
  let ?D = "Execute (DropTableIfExists schema tablename)"
  let ?C = "Execute (CreateTable schema tablename ?cols)"
  let ?Y = "Execute (CopyFrom schema tablename file_name)"
  let ?s3 = "s\<lparr>trace := trace s @ [?D, OpenRead file_name, ?C], world := w2\<rparr>"
  let ?s3c = "s\<lparr>trace := trace s @ [?D, OpenRead file_name, ?C, ?Y], world := w2\<rparr>"
  let ?P = "\<lambda>ev. ev \<noteq> ReadCsv file_name \<and> ev \<noteq> ToCsv ?tmp
                 \<and> ev \<noteq> Execute (CopyFrom schema tablename ?tmp)"
  let ?T = "try_except_DataError (copy_commit E schema tablename file_name)
              (fallback E schema tablename file_name)"
  let ?K = "andthen (conn_execute E (SelectCount schema tablename)) (\<lambda>res.
            andthen (first_scalar res) (\<lambda>num_rows.
            andthen (print (rows_loaded num_rows)) (\<lambda>_.
            andthen conn_close (\<lambda>_.
            return PyNone))))"
  have pre: "csv_to_table E tablename schema file_name s = andthen ?T (\<lambda>_. ?K) ?s3"
    using op dr fl cr
    by (simp add: csv_to_table_def andthen_def conn_execute_def read_header_def emit_def)
  have o3: "\<not> closed ?s3" "\<not> closed ?s3c" using op by simp_all
  have tailE: "\<exists>rest. trace b = trace a @ rest \<and> list_all ?P rest" if "?K a = (x, b)" for a b x
    using emitsD [OF tail_emits that] .
  have ne: "file_name @ ''_tmp'' \<noteq> file_name" by simp
  show ?thesis
  proof (cases "db_execute E (CopyFrom schema tablename file_name) w2")
    case (Inl e)
    have cc: "copy_commit E schema tablename file_name ?s3 = (Inl e, ?s3c)"
      using op Inl by (simp add: copy_commit_def andthen_def conn_execute_def emit_def)
    show ?thesis
    proof (cases "e = DataError")
      case True
      obtain r4 s4 where fb: "fallback E schema tablename file_name ?s3c = (r4, s4)"
        by (cases "fallback E schema tablename file_name ?s3c")
      note tr4 = fallback_trace [OF o3(2) fb]
      have t: "?T ?s3 = (r4, s4)"
        using cc True fb by (simp add: try_except_DataError_def)
      show ?thesis
      proof (cases r4)
        case (Inl e')
        then have "csv_to_table E tablename schema file_name s = (Inl e', s4)"
          unfolding pre using t by (simp add: andthen_def)
        with run have "r = Inl e'" "s' = s4" by simp_all
        then show ?thesis
          using \<open>db_execute E (CopyFrom schema tablename file_name) w2 = Inl e\<close> True fb Inl tr4
          by auto
      next
        case (Inr a)
        then have "csv_to_table E tablename schema file_name s = ?K s4"
          unfolding pre using t by (simp add: andthen_def)
        with run have "?K s4 = (r, s')" by simp
        from tailE [OF this] obtain rest where
          rest: "trace s' = trace s4 @ rest" "list_all ?P rest" by blast
        then show ?thesis
          using \<open>db_execute E (CopyFrom schema tablename file_name) w2 = Inl e\<close> True fb Inr tr4
          by auto
      qed
    next
      case False
      have "?T ?s3 = (Inl e, ?s3c)"
        using cc False by (simp add: try_except_DataError_def)
      then have "csv_to_table E tablename schema file_name s = (Inl e, ?s3c)"
        unfolding pre by (simp add: andthen_def)
      with run have "r = Inl e" "s' = ?s3c" by simp_all
      then show ?thesis
        using \<open>db_execute E (CopyFrom schema tablename file_name) w2 = Inl e\<close> False
        by simp
    qed
  next
    case (Inr ok)
    obtain r3 w3 where ok: "ok = (r3, w3)" by (cases ok)
    let ?s4 = "?s3c\<lparr>world := w3\<rparr>"
    have cp: "conn_execute E (CopyFrom schema tablename file_name) ?s3 = (Inr r3, ?s4)"
      using op Inr ok by (simp add: conn_execute_def emit_def)
    show ?thesis
    proof (cases "db_execute E Commit w3")
      case (Inl e)
      with cm have e: "e \<noteq> DataError" by auto
      have "?T ?s3 = (Inl e, emit (Execute Commit) ?s4)"
        using cp Inl e op
        by (simp add: try_except_DataError_def copy_commit_def andthen_def conn_execute_def)
      then have "csv_to_table E tablename schema file_name s = (Inl e, emit (Execute Commit) ?s4)"
        unfolding pre by (simp add: andthen_def)
      with run have "s' = emit (Execute Commit) ?s4" by simp
      then show ?thesis
        using \<open>db_execute E (CopyFrom schema tablename file_name) w2 = Inr ok\<close> ne
        by simp
    next
      case (Inr ok5)
      obtain r5 w5 where ok5: "ok5 = (r5, w5)" by (cases ok5)
      let ?s5 = "(emit (Execute Commit) ?s4)\<lparr>world := w5\<rparr>"
      have "?T ?s3 = (Inr r5, ?s5)"
        using cp Inr ok5 op
        by (simp add: try_except_DataError_def copy_commit_def andthen_def conn_execute_def)
      then have "csv_to_table E tablename schema file_name s = ?K ?s5"
        unfolding pre by (simp add: andthen_def)
      with run have "?K ?s5 = (r, s')" by simp
      from tailE [OF this] obtain rest where
        rest: "trace s' = trace ?s5 @ rest" "list_all ?P rest" by blast
      then show ?thesis
        using \<open>db_execute E (CopyFrom schema tablename file_name) w2 = Inr ok\<close> ne
        by (auto simp: list_all_iff)
    qed
  qed
qed

lemma pg_create:
  "tables w (sc, t) = None \<Longrightarrow> distinct (map fst cols) \<Longrightarrow>
   db_execute (pg_env rc) (CreateTable sc t cols) w
     = Inr ([], w\<lparr>tables := (tables w)((sc, t) \<mapsto> \<lparr>columns = cols, rows = []\<rparr>)\<rparr>)"
  by (simp add: pg_env_def pg_execute_def)

lemma pg_commit: "\<forall>w. db_execute (pg_env rc) Commit w \<noteq> Inl DataError"
  by (simp add: pg_env_def pg_execute_def)

theorem csv_to_table_retries_once_on_data_error_witness:
  "ReadCsv ''/data/short.csv'' \<in> set (trace (snd (csv_to_table (pg_env pandas_read_csv)
       ''t'' ''public'' ''/data/short.csv'' short_state))) \<and>
   fst (csv_to_table (pg_env pandas_read_csv) ''t'' ''public'' ''/data/short.csv'' short_state)
     = Inr PyNone \<and>
   files (world (snd (csv_to_table (pg_env pandas_read_csv) ''t'' ''public''
       ''/data/short.csv'' short_state))) ''/data/short.csv_tmp''
     = Some [[''a'', ''b''], [''1'', []]] \<and>
   csv_to_table denied_env ''sales'' ''public'' ''/data/sales.csv'' sales_state
     = (Inl (OtherError ''InsufficientPrivilege''),
        sales_state\<lparr>trace :=
           [Execute (DropTableIfExists ''public'' ''sales''), OpenRead ''/data/sales.csv'',
            Execute (CreateTable ''public'' ''sales''
               [(''date'', ''text''), (''region'', ''text''), (''amount'', ''text'')]),
            Execute (CopyFrom ''public'' ''sales'' ''/data/sales.csv'')],
          world := \<lparr>files = [''/data/sales.csv'' \<mapsto> sales_csv],
                     tables = [(''public'', ''sales'') \<mapsto>
                        \<lparr>columns = [(''date'', ''text''), (''region'', ''text''),
                                    (''amount'', ''text'')], rows = []\<rparr>]\<rparr>\<rparr>)"
proof -
  let ?run = "csv_to_table (pg_env pandas_read_csv) ''t'' ''public'' ''/data/short.csv''
                short_state"
  let ?w1 = "(world short_state)
               \<lparr>tables := (tables (world short_state))((''public'', ''t'') := None)\<rparr>"
  let ?w2 = "?w1\<lparr>tables := (tables ?w1)((''public'', ''t'') \<mapsto>
               \<lparr>columns = map (\<lambda>col. (col, ''text'')) [''a'', ''b''], rows = []\<rparr>)\<rparr>"
  have op: "\<not> closed short_state" by (simp add: short_state_def example_state_def)
  have fl: "files ?w1 ''/data/short.csv'' = Some ([''a'', ''b''] # [[''1'']])"
    by (simp add: short_state_def example_state_def)
  have cr: "db_execute (pg_env pandas_read_csv)
      (CreateTable ''public'' ''t'' (map (\<lambda>col. (col, ''text'')) [''a'', ''b''])) ?w1
        = Inr ([], ?w2)"
    by (rule pg_create) simp_all
  have run: "?run = (fst ?run, snd ?run)" by simp
  have cp: "db_execute (pg_env pandas_read_csv)
      (CopyFrom ''public'' ''t'' ''/data/short.csv'') ?w2 = Inl DataError"
    by (simp add: pg_env_def pg_execute_def pg_fields_def short_state_def example_state_def)
  have tr: "trace short_state = []" by (simp add: short_state_def example_state_def)
  have a: "ReadCsv ''/data/short.csv'' \<in> set (trace (snd ?run))"
    using csv_to_table_retries_once_on_data_error [OF op pg_drop fl cr pg_commit run] cp tr
    by simp
  have b: "fst ?run = Inr PyNone \<and>
      files (world (snd ?run)) ''/data/short.csv_tmp'' = Some [[''a'', ''b''], [''1'', []]]"
    by (simp add: pg_csv_to_table Let_def short_state_def example_state_def pg_fields_def
        pandas_read_csv_def)
  let ?S = "sales_state"
  let ?v1 = "(world ?S)\<lparr>tables := (tables (world ?S))((''public'', ''sales'') := None)\<rparr>"
  let ?v2 = "?v1\<lparr>tables := (tables ?v1)((''public'', ''sales'') \<mapsto>
               \<lparr>columns = map (\<lambda>col. (col, ''text'')) [''date'', ''region'', ''amount''],
                  rows = []\<rparr>)\<rparr>"
  let ?run2 = "csv_to_table denied_env ''sales'' ''public'' ''/data/sales.csv'' ?S"
  have op2: "\<not> closed ?S" by (simp add: example_defs)
  have dr2: "db_execute denied_env (DropTableIfExists ''public'' ''sales'') (world ?S)
      = Inr ([], ?v1)"
    by (simp add: denied_env_def pg_execute_def)
  have fl2: "files ?v1 ''/data/sales.csv''
      = Some ([''date'', ''region'', ''amount'']
          # [[''2020-01-01'', ''north'', ''10''], [''2020-01-02'', ''south'', ''20''],
             [''2020-01-03'', ''east'', ''30'']])"
    by (simp add: example_defs)
  have cr2: "db_execute denied_env
      (CreateTable ''public'' ''sales''
         (map (\<lambda>col. (col, ''text'')) [''date'', ''region'', ''amount''])) ?v1
        = Inr ([], ?v2)"
    by (simp add: denied_env_def pg_execute_def example_defs)
  have cm2: "\<forall>w. db_execute denied_env Commit w \<noteq> Inl DataError"
    by (simp add: denied_env_def pg_execute_def)
  have run2: "?run2 = (fst ?run2, snd ?run2)" by simp
  have cp2: "db_execute denied_env (CopyFrom ''public'' ''sales'' ''/data/sales.csv'') ?v2
      = Inl (OtherError ''InsufficientPrivilege'')"
    by (simp add: denied_env_def)
  have c: "fst ?run2 = Inl (OtherError ''InsufficientPrivilege'') \<and>
           snd ?run2 = ?S\<lparr>trace := trace ?S @
             [Execute (DropTableIfExists ''public'' ''sales''), OpenRead ''/data/sales.csv'',
              Execute (CreateTable ''public'' ''sales''
                 (map (\<lambda>col. (col, ''text'')) [''date'', ''region'', ''amount''])),
              Execute (CopyFrom ''public'' ''sales'' ''/data/sales.csv'')], world := ?v2\<rparr>"
    using csv_to_table_retries_once_on_data_error [OF op2 dr2 fl2 cr2 cm2 run2] cp2
    by simp
  have c': "?run2 = (Inl (OtherError ''InsufficientPrivilege''),
        ?S\<lparr>trace := trace ?S @
             [Execute (DropTableIfExists ''public'' ''sales''), OpenRead ''/data/sales.csv'',
              Execute (CreateTable ''public'' ''sales''
                 (map (\<lambda>col. (col, ''text'')) [''date'', ''region'', ''amount''])),
              Execute (CopyFrom ''public'' ''sales'' ''/data/sales.csv'')], world := ?v2\<rparr>)"
    using c by (simp add: prod_eq_iff)
  have w: "?v2 = \<lparr>files = [''/data/sales.csv'' \<mapsto> sales_csv],
                     tables = [(''public'', ''sales'') \<mapsto>
                        \<lparr>columns = [(''date'', ''text''), (''region'', ''text''),
                                    (''amount'', ''text'')], rows = []\<rparr>]\<rparr>"
    by (simp add: sales_state_def example_state_def)
  have tr2: "trace ?S = []" by (simp add: example_defs)
  show ?thesis using a b c' w tr2 by simp
qed

subsection \<open>Loading twice\<close>

lemma pg_rerun:
  assumes a: "\<not> closed a" and run: "csv_to_table (pg_env rc) t sc fn a = (r, a')"
    and b: "\<not> closed b" and w: "world b = world a'"
  shows "fst (csv_to_table (pg_env rc) t sc fn b) = r \<and>
         world (snd (csv_to_table (pg_env rc) t sc fn b)) = world b \<and>
         trace (snd (csv_to_table (pg_env rc) t sc fn b))
           = trace b @ drop (length (trace a)) (trace a')"
  using run w unfolding pg_csv_to_table [OF a] pg_csv_to_table [OF b]
  by (auto simp: Let_def split: option.splits list.splits sum.splits if_splits)

lemma csv_to_table_extends:
  assumes "csv_to_table E t sc fn s = (r, s')"
  shows "\<exists>evs. trace s' = trace s @ evs"
proof -
  have "emits (\<lambda>ev. True) (csv_to_table E t sc fn)"
    unfolding csv_to_table_def copy_commit_def fallback_def
    by (intro emits_andthen emits_try emits_return emits_first_scalar emits_print
          emits_conn_close emits_rewrite_as_text emits_conn_execute emits_read_header TrueI)
  from emitsD [OF this assms] show ?thesis by blast
qed

text \<open>
  Claim C6. On the reference environment, loading the same file twice in succession into
  the same table ends in the same state both times: the second run of \<open>main\<close> has the
  same outcome as the first, leaves the files and all tables exactly as the first left
  them (so the row count of the target table is the same), and goes through the same
  events, the printed row count among them. Nothing accumulates.
\<close>

theorem main_twice_same_end_state:
  assumes first: "main (pg_env rc) file_name tablename database schema s = (r1, s1)"
    and second: "main (pg_env rc) file_name tablename database schema s1 = (r2, s2)"
  shows "r2 = r1 \<and> world s2 = world s1 \<and>
     map_option (\<lambda>tb. length (rows tb)) (tables (world s2) (schema, tablename))
       = map_option (\<lambda>tb. length (rows tb)) (tables (world s1) (schema, tablename)) \<and>
     drop (length (trace s1)) (trace s2) = drop (length (trace s)) (trace s1)"
proof -
  let ?L = "loading_message file_name database schema tablename"
  let ?A1 = "after_connect ?L s"
  let ?A2 = "after_connect ?L s1"
  obtain q a' where run1: "csv_to_table (pg_env rc) tablename schema file_name ?A1 = (q, a')"
    by (cases "csv_to_table (pg_env rc) tablename schema file_name ?A1")
  obtain q2 b' where run2: "csv_to_table (pg_env rc) tablename schema file_name ?A2 = (q2, b')"
    by (cases "csv_to_table (pg_env rc) tablename schema file_name ?A2")
  from csv_to_table_extends [OF run1] obtain evs where
    evs: "trace a' = trace s @ [Print ?L, Connect] @ evs" by auto
  note m1 = main_connected [OF pg_connect run1]
  have w1: "world s1 = world a'"
    using first unfolding m1 by (cases q) (auto simp: released_def split: if_splits)
  have o1: "\<not> closed ?A1" and o2: "\<not> closed ?A2" by simp_all
  have w2: "world ?A2 = world a'" using w1 by simp
  from pg_rerun [OF o1 run1 o2 w2] run2 evs w1
  have q2: "q2 = q" and wb: "world b' = world a'"
    and tb: "trace b' = trace s1 @ [Print ?L, Connect] @ evs"
    by simp_all
  note m2 = main_connected [OF pg_connect run2]
  let ?fin = "case q of
      Inl e \<Rightarrow> (if e = FileNotFoundError
                then [Print path_hint, ConnClose, EngineDispose, Print done_message]
                else [ConnClose, EngineDispose])
    | Inr v \<Rightarrow> [ConnClose, EngineDispose, Print done_message]"
  have e1: "s1 = released ?fin a'"
    using first unfolding m1 by (cases q) (auto split: if_splits)
  have e2: "s2 = released ?fin b'"
    using second unfolding m2 q2 by (cases q) (auto split: if_splits)
  have r: "r2 = r1"
    using first second unfolding m1 m2 q2 by (cases q) (auto split: if_splits)
  have t1: "trace s1 = trace s @ ([Print ?L, Connect] @ evs @ ?fin)"
    using e1 evs by (simp add: released_def)
  have t2: "trace s2 = trace s1 @ ([Print ?L, Connect] @ evs @ ?fin)"
    using e2 tb by (simp add: released_def)
  have d1: "drop (length (trace s)) (trace s1) = [Print ?L, Connect] @ evs @ ?fin"
    unfolding t1 by simp
  have d2: "drop (length (trace s1)) (trace s2) = [Print ?L, Connect] @ evs @ ?fin"
    unfolding t2 by simp
  have ws: "world s2 = world s1"
    using e1 e2 wb by (simp add: released_def)
  show ?thesis using r ws d1 d2 by simp
qed

lemma sales_main:
  "fst (main (pg_env pandas_read_csv) ''/data/sales.csv'' ''sales'' ''postgres'' ''public''
          sales_state) = Inr PyNone \<and>
   tables (world (snd (main (pg_env pandas_read_csv) ''/data/sales.csv'' ''sales'' ''postgres''
          ''public'' sales_state))) (''public'', ''sales'')
     = Some \<lparr>columns = [(''date'', ''text''), (''region'', ''text''), (''amount'', ''text'')],
              rows = tl sales_csv\<rparr>"
proof -
  let ?A = "after_connect (loading_message ''/data/sales.csv'' ''postgres'' ''public'' ''sales'')
              sales_state"
  let ?run = "csv_to_table (pg_env pandas_read_csv) ''sales'' ''public'' ''/data/sales.csv'' ?A"
  have f: "fst ?run = Inr PyNone"
    by (simp add: eval_defs)
  have t: "tables (world (snd ?run)) (''public'', ''sales'')
     = Some \<lparr>columns = [(''date'', ''text''), (''region'', ''text''), (''amount'', ''text'')],
              rows = tl sales_csv\<rparr>"
    by (simp add: eval_defs)
  have "?run = (Inr PyNone, snd ?run)" using f by (simp add: prod_eq_iff)
  from main_connected [OF pg_connect this] t show ?thesis
    by (simp add: released_def)
qed

theorem main_twice_same_end_state_witness:
  "fst (main (pg_env pandas_read_csv) ''/data/sales.csv'' ''sales'' ''postgres'' ''public''
     (snd (main (pg_env pandas_read_csv) ''/data/sales.csv'' ''sales'' ''postgres'' ''public''
             sales_state))) = Inr PyNone \<and>
   map_option (\<lambda>tb. length (rows tb))
     (tables (world (snd (main (pg_env pandas_read_csv) ''/data/sales.csv'' ''sales''
        ''postgres'' ''public''
        (snd (main (pg_env pandas_read_csv) ''/data/sales.csv'' ''sales'' ''postgres''
                ''public'' sales_state))))) (''public'', ''sales'')) = Some 3 \<and>
   map_option (\<lambda>tb. length (rows tb))
     (tables (world (snd (main (pg_env pandas_read_csv) ''/data/sales.csv'' ''sales''
        ''postgres'' ''public'' sales_state))) (''public'', ''sales'')) = Some 3"
proof -
  let ?m1 = "main (pg_env pandas_read_csv) ''/data/sales.csv'' ''sales'' ''postgres'' ''public''
               sales_state"
  let ?m2 = "main (pg_env pandas_read_csv) ''/data/sales.csv'' ''sales'' ''postgres'' ''public''
               (snd ?m1)"
  have a: "?m1 = (fst ?m1, snd ?m1)" and b: "?m2 = (fst ?m2, snd ?m2)" by simp_all
  from main_twice_same_end_state [OF a b] sales_main show ?thesis
    by (simp add: sales_csv_def)
qed

subsection \<open>The table after a successful load\<close>

lemma pg_success_table:
  assumes run: "csv_to_table (pg_env rc) tablename schema file_name s = (Inr v, s')"
    and fl: "files (world s) file_name = Some (header # recs)"
  shows "tables (world s') (schema, tablename) = Some (table_of_file rc header recs) \<and>
         (\<exists>pre. trace s' = pre @ [Execute (SelectCount schema tablename),
             Print (rows_loaded (int (length (rows (table_of_file rc header recs))))),
             ConnClose]) \<and>
         (list_all (\<lambda>r. length r = length header) (map (pg_fields (length header)) recs) \<or>
          (\<exists>g. rc (header # recs) = Inr g \<and> files (world s') (file_name @ ''_tmp'') = Some g))"
proof -
  have op: "\<not> closed s"
    using run csv_to_table_closed [of s "pg_env rc" tablename schema file_name] by auto
  show ?thesis
    using run fl unfolding pg_csv_to_table [OF op]
    by (auto simp: Let_def table_of_file_def split: sum.splits if_splits)
qed




subsection \<open>A second load replaces the first\<close>

lemma connect_pg:
  "connect (pg_env rc) s = (Inr (), (emit Connect s)\<lparr>conn_bound := True, closed := False\<rparr>)"
  by (simp add: connect_def pg_env_def)

text \<open>
  Claim C7. On the reference environment, load a file \<open>file1\<close> into a table, whatever the
  outcome; take a new connection and load \<open>file2\<close>, whose content at that moment is
  \<open>header # recs\<close>, into the same table. If the second load succeeds, the table is
  \<open>table_of_file rc header recs\<close>, which depends on the second file alone: its columns
  are those of the second header, its rows those of the second file, and the count
  printed is their number. No row of the first load is left.
\<close>

theorem second_load_replaces_table:
  assumes first: "csv_to_table (pg_env rc) tablename schema file1 s = (r1, s1)"
    and fresh: "connect (pg_env rc) s1 = (Inr (), s1')"
    and fl: "files (world s1) file2 = Some (header # recs)"
    and second: "csv_to_table (pg_env rc) tablename schema file2 s1' = (Inr v, s2)"
  shows "tables (world s2) (schema, tablename) = Some (table_of_file rc header recs) \<and>
         (\<exists>pre. trace s2 = pre @ [Execute (SelectCount schema tablename),
             Print (rows_loaded (int (length (rows (table_of_file rc header recs))))),
             ConnClose])"
proof -
  have "world s1' = world s1" using fresh by (auto simp: connect_pg)
  with fl have "files (world s1') file2 = Some (header # recs)" by simp
  from pg_success_table [OF second this] show ?thesis by blast
qed

theorem second_load_replaces_table_witness:
  "tables (world (snd (csv_to_table (pg_env pandas_read_csv) ''t'' ''public'' ''/data/short.csv''
      (snd (connect (pg_env pandas_read_csv)
        (snd (csv_to_table (pg_env pandas_read_csv) ''t'' ''public'' ''/data/sales.csv''
               two_files_state))))))) (''public'', ''t'')
     = Some \<lparr>columns = [(''a'', ''text''), (''b'', ''text'')], rows = [[''1'', []]]\<rparr> \<and>
   map_option (\<lambda>tb. length (rows tb))
     (tables (world (snd (csv_to_table (pg_env pandas_read_csv) ''t'' ''public''
        ''/data/sales.csv'' two_files_state))) (''public'', ''t'')) = Some 3"
proof -
  let ?run1 = "csv_to_table (pg_env pandas_read_csv) ''t'' ''public'' ''/data/sales.csv''
                 two_files_state"
  let ?c = "connect (pg_env pandas_read_csv) (snd ?run1)"
  let ?run2 = "csv_to_table (pg_env pandas_read_csv) ''t'' ''public'' ''/data/short.csv'' (snd ?c)"
  have first: "?run1 = (fst ?run1, snd ?run1)" by simp
  have fresh: "?c = (Inr (), snd ?c)" by (simp add: connect_pg)
  have w1: "files (world (snd ?run1)) ''/data/short.csv'' = Some ([''a'', ''b''] # [[''1'']])"
    and t1: "map_option (\<lambda>tb. length (rows tb))
               (tables (world (snd ?run1)) (''public'', ''t'')) = Some 3"
    by (simp_all add: eval_defs two_files_state_def)
  have "fst ?run2 = Inr PyNone"
    by (simp add: eval_defs two_files_state_def connect_pg pandas_read_csv_def)
  then have second: "?run2 = (Inr PyNone, snd ?run2)" by (simp add: prod_eq_iff)
  from second_load_replaces_table [OF first fresh w1 second] t1 show ?thesis
    by (simp add: table_of_file_def pg_fields_def pandas_read_csv_def)
qed

section \<open>The claim about get_project_stats\<close>

lemma str_split_example:
  "str_split ''TS_FD:1-7_FDW:28_Cluster-0'' ''_Cluster-'' = [''TS_FD:1-7_FDW:28'', ''0'']"
  by (simp add: str_split_def)

lemma str_split_trailing:
  "str_split ''ab'' ''b'' = [''a'', []]"
  by (simp add: str_split_def)




end
